theory Spec2Isabelle
  imports Main
begin

section \<open>The Add Stock form (src/components/AddStocks.js)\<close>

text \<open>
  The component keeps six pieces of React state and reacts to four kinds of events:
  an input change, the debounced preview check \<open>checkExistingStock\<close>, a submission
  and the opening of the dialog. Each handler is embedded as a function from the state
  (and the replies of the HTTP API it awaits) to the new state and the list of
  effects it issued, in the order the source issues them.

  Numbers. JavaScript numbers are IEEE doubles. A double holds every integer of
  magnitude below \<open>2^53\<close> exactly (the safe integers), compares, adds and prints
  them as integers, and rounds beyond. The embedding follows the safe integers:
  \<open>parseInt\<close> yields \<open>NaN\<close>, a safe integer, or the mere fact that the number is of
  magnitude \<open>2^53\<close> or more; a sum is given when it is a safe integer; and the numbers
  of a stock listing are taken to be safe integers, which every theorem that compares
  or prints one assumes (\<open>safeStock\<close>). Negative zero is identified with zero: the
  source only compares numbers with \<open>===\<close> and \<open><\<close>, adds them and prints them,
  and none of these distinguishes the two zeros.

  Strings. Field values and messages are strings of 8-bit code units.

  Time. The check is delayed by a timer of 500 ms, which a further change of the stock
  id or the product id cancels (lines 94 to 96). Timers and the scheduling of effects
  belong to the browser and to React, not to the component: here a check is an event
  like any other, run on the fields as they are when it starts.
\<close>

subsection \<open>Numbers and their text form\<close>

text \<open>
  \<open>Num n\<close> is the safe integer \<open>n\<close>. \<open>Large neg\<close> is a number of magnitude
  \<open>2^53\<close> or more, infinite perhaps, negative if \<open>neg\<close>; its value is not followed.
  The limit \<open>2^53\<close> is written out as 9007199254740992.
\<close>

datatype number = NaN | Num int | Large bool

definition safeInteger :: "int \<Rightarrow> bool" where
  "safeInteger n = (\<bar>n\<bar> < 9007199254740992)"

text \<open>White space that \<open>parseInt\<close> skips, among the code units below 256.\<close>

definition isWhiteSpace :: "char \<Rightarrow> bool" where
  "isWhiteSpace c = ((of_char c :: nat) \<in> {9, 10, 11, 12, 13, 32, 160})"

definition digitValue :: "char \<Rightarrow> nat option" where
  "digitValue c =
     (let k = (of_char c :: nat) in
      if 48 \<le> k \<and> k \<le> 57 then Some (k - 48)
      else if 97 \<le> k \<and> k \<le> 102 then Some (k - 87)
      else if 65 \<le> k \<and> k \<le> 70 then Some (k - 55)
      else None)"

definition isRadixDigit :: "nat \<Rightarrow> char \<Rightarrow> bool" where
  "isRadixDigit R c = (case digitValue c of None \<Rightarrow> False | Some d \<Rightarrow> d < R)"

definition radixValue :: "nat \<Rightarrow> string \<Rightarrow> nat" where
  "radixValue R z =
     foldl (\<lambda>a c. a * R + (case digitValue c of None \<Rightarrow> 0 | Some d \<Rightarrow> d)) 0 z"

text \<open>
  \<open>parseInt(string)\<close> with no radix argument: skip leading white space, read an
  optional sign, switch to radix 16 after a \<open>0x\<close> or \<open>0X\<close> prefix, take the longest
  prefix of digits, and answer \<open>NaN\<close> when that prefix is empty. Whatever follows the
  digits is ignored. The digits denote an integer; below \<open>2^53\<close> the result is that
  integer, from \<open>2^53\<close> on it is the double next to it, of which the embedding keeps
  the sign.
\<close>

definition stripSign :: "string \<Rightarrow> bool \<times> string" where
  "stripSign s =
     (case s of
        [] \<Rightarrow> (False, [])
      | c # r \<Rightarrow> if c = CHR ''-'' then (True, r)
                else if c = CHR ''+'' then (False, r)
                else (False, s))"

definition stripPrefix :: "string \<Rightarrow> nat \<times> string" where
  "stripPrefix s =
     (case s of
        a # b # r \<Rightarrow> if a = CHR ''0'' \<and> (b = CHR ''x'' \<or> b = CHR ''X'') then (16, r) else (10, s)
      | _ \<Rightarrow> (10, s))"

definition parseInt :: "string \<Rightarrow> number" where
  "parseInt inputString =
     (let (neg, s) = stripSign (dropWhile isWhiteSpace inputString);
          (R, t) = stripPrefix s;
          z = takeWhile (isRadixDigit R) t
      in if z = [] then NaN
         else if int (radixValue R z) < 9007199254740992
           then Num ((if neg then - 1 else 1) * int (radixValue R z))
           else Large neg)"

text \<open>
  The text of a safe integer inside a template literal: all its digits. (Beyond the
  safe integers a double is printed with the fewest digits that read back, and with an
  exponent from \<open>10^21\<close> on.)
\<close>

definition digitChar :: "nat \<Rightarrow> char" where
  "digitChar d = char_of (48 + d)"

fun showNat :: "nat \<Rightarrow> string" where
  "showNat n = (if n < 10 then [digitChar n] else showNat (n div 10) @ [digitChar (n mod 10)])"

declare showNat.simps [simp del]

definition showInt :: "int \<Rightarrow> string" where
  "showInt i = (if i < 0 then CHR ''-'' # showNat (nat (- i)) else showNat (nat i))"

subsection \<open>Data of the form and of the API\<close>

text \<open>
  A stock record as \<open>GET /api/stocks\<close> lists it. The field \<open>id\<close> of the source is
  \<open>id_stock\<close> here. The three numbers are taken to be safe integers.
\<close>

record stock =
  id_stock :: int
  product_id :: int
  quantity_stock :: int

definition safeStock :: "stock \<Rightarrow> bool" where
  "safeStock s =
     (safeInteger (id_stock s) \<and> safeInteger (product_id s) \<and> safeInteger (quantity_stock s))"

record ProductRef =
  id_product :: int

record formData =
  stockId :: string
  productId :: string
  quantity :: string

record state =
  formData :: formData
  error :: string
  productError :: string
  loading :: bool
  currentStock :: "stock option"
  stockIdExists :: bool

text \<open>The body of \<open>POST /api/stocks\<close>, three results of \<open>parseInt\<close>.\<close>

record stockData =
  id_data :: number
  product_id_data :: number
  quantity_data :: number

text \<open>
  What \<open>POST /api/stocks\<close> answers on success; a property the answer does not carry
  is \<open>undefined\<close>, here \<open>None\<close>. Its numbers are taken to be safe integers, as
  those of a listing are.
\<close>

record postData =
  previousQuantity :: "int option"
  addedQuantity :: "int option"
  newQuantity :: "int option"

text \<open>
  An awaited request either throws (\<open>Failed\<close>: the transport failed, the server
  answered with an error status, or the body has not the expected shape) or yields
  its data.
\<close>

datatype 'a reply = Failed | Ok 'a

text \<open>
  A failed write carries \<open>err.response?.data?.error\<close> when the server sent one;
  a successful one carries \<open>response.data\<close>, which may be empty.
\<close>

datatype post_reply = PostFailed "string option" | PostOk "postData option"

datatype effect =
    GET_products string
  | GET_stocks nat nat
  | POST_stocks stockData
  | OnSubmit postData
  | OnClose

definition initial :: state where
  "initial =
     \<lparr>formData = \<lparr>stockId = [], productId = [], quantity = []\<rparr>,
      error = [], productError = [], loading = False,
      currentStock = None, stockIdExists = False\<rparr>"

subsection \<open>The preview check\<close>

definition existingStock :: "formData \<Rightarrow> stock list \<Rightarrow> stock option" where
  "existingStock fd stocks =
     (if stockId fd \<noteq> [] then List.find (\<lambda>s. Num (id_stock s) = parseInt (stockId fd)) stocks
      else None)"

definition productStock :: "formData \<Rightarrow> stock list \<Rightarrow> stock option" where
  "productStock fd stocks =
     (if productId fd \<noteq> [] then List.find (\<lambda>s. Num (product_id s) = parseInt (productId fd)) stocks
      else None)"

text \<open>
  Lines 73 to 87: the product-bound check and the two previews. \<open>es\<close> and \<open>ps\<close> are
  the \<open>existingStock\<close> and \<open>productStock\<close> of the source.
\<close>

definition checkBound :: "formData \<Rightarrow> stock option \<Rightarrow> stock option \<Rightarrow> state \<Rightarrow> state" where
  "checkBound fd es ps st =
     (let cleared = st\<lparr>currentStock := None, error := [], productError := []\<rparr>;
          preview =
            (case es of
               None \<Rightarrow> cleared
             | Some e \<Rightarrow>
                 if Num (product_id e) = parseInt (productId fd) then
                   st\<lparr>currentStock := Some e,
                      error := ''Current stock quantity: '' @ showInt (quantity_stock e)
                                 @ ''. New quantity will be added to this.'',
                      productError := []\<rparr>
                 else cleared)
      in case ps of
           None \<Rightarrow> preview
         | Some p \<Rightarrow>
             if (case es of None \<Rightarrow> True | Some e \<Rightarrow> id_stock e \<noteq> id_stock p) then
               st\<lparr>productError := ''Product ID '' @ productId fd @ '' already has Stock ID ''
                                     @ showInt (id_stock p),
                  currentStock := None\<rparr>
             else preview)"

text \<open>Lines 57 to 87: what the check does with a stock listing it received.\<close>

definition checkStocks :: "formData \<Rightarrow> stock list \<Rightarrow> state \<Rightarrow> state" where
  "checkStocks fd stocks st =
     (let es = existingStock fd stocks;
          ps = productStock fd stocks
      in case es of
           Some e \<Rightarrow>
             (let st1 = st\<lparr>stockIdExists := True\<rparr> in
              if productId fd \<noteq> [] \<and> Num (product_id e) \<noteq> parseInt (productId fd) then
                st1\<lparr>productError := ''Stock ID '' @ stockId fd
                                       @ '' is already assigned to Product ID ''
                                       @ showInt (product_id e),
                    currentStock := None\<rparr>
              else checkBound fd (Some e) ps st1)
         | None \<Rightarrow> checkBound fd None ps (st\<lparr>stockIdExists := False\<rparr>))"

text \<open>
  \<open>checkExistingStock\<close>, run when the debounce timer fires. It reads the two
  identifier fields of the form, which are those of the current state (the effect is
  rescheduled whenever one of them changes). \<open>pr\<close> is what the product query answers
  and \<open>sr\<close> what the stock listing answers, should the check ask.
\<close>

definition checkExistingStock ::
  "ProductRef option reply \<Rightarrow> stock list reply \<Rightarrow> state \<Rightarrow> state \<times> effect list" where
  "checkExistingStock pr sr st =
     (let fd = formData st in
      if stockId fd = [] \<and> productId fd = [] then (st, [])
      else
        let asked = (if productId fd \<noteq> [] then [GET_products (productId fd)] else []);
            notFound = (st\<lparr>productError := ''Product ID does not exist'', currentStock := None\<rparr>,
                        asked);
            listing =
              (case sr of
                 Failed \<Rightarrow> (st\<lparr>error := ''Error checking stock information''\<rparr>,
                            asked @ [GET_stocks 1 100])
               | Ok stocks \<Rightarrow> (checkStocks fd stocks st, asked @ [GET_stocks 1 100]))
        in if productId fd \<noteq> [] then
             (case pr of
                Failed \<Rightarrow> notFound
              | Ok None \<Rightarrow> notFound
              | Ok (Some product) \<Rightarrow> listing)
           else listing)"

subsection \<open>Input changes\<close>

text \<open>
  \<open>setFormData(prev => ({...prev, [name]: value}))\<close>. The form has three inputs,
  named after the three fields; a change under any other name would add a property
  that nothing reads, and leaves the three fields as they are.
\<close>

definition setField :: "string \<Rightarrow> string \<Rightarrow> formData \<Rightarrow> formData" where
  "setField name v fd =
     (if name = ''stockId'' then fd\<lparr>stockId := v\<rparr>
      else if name = ''productId'' then fd\<lparr>productId := v\<rparr>
      else if name = ''quantity'' then fd\<lparr>quantity := v\<rparr>
      else fd)"

definition handleInputChange :: "string \<Rightarrow> string \<Rightarrow> state \<Rightarrow> state" where
  "handleInputChange name v st =
     (if (name = ''stockId'' \<or> name = ''productId'' \<or> name = ''quantity'') \<and> v \<noteq> []
         \<and> (case parseInt v of NaN \<Rightarrow> True | Num num \<Rightarrow> num < 0 | Large neg \<Rightarrow> neg)
      then st
      else st\<lparr>formData := setField name v (formData st)\<rparr>)"

subsection \<open>Submission\<close>

definition validateForm :: "state \<Rightarrow> bool \<times> state" where
  "validateForm st =
     (let fd = formData st in
      if stockId fd = [] \<or> productId fd = [] \<or> quantity fd = [] then
        (False, st\<lparr>error := ''All fields are required''\<rparr>)
      else if productError st \<noteq> [] then (False, st)
      else (True, st))"

definition showProperty :: "int option \<Rightarrow> string" where
  "showProperty v = (case v of None \<Rightarrow> ''undefined'' | Some n \<Rightarrow> showInt n)"

definition successMessage :: "postData \<Rightarrow> string" where
  "successMessage d =
     (if previousQuantity d \<noteq> None then
        ''Successfully updated stock. Previous: '' @ showProperty (previousQuantity d)
          @ '', Added: '' @ showProperty (addedQuantity d)
          @ '', New Total: '' @ showProperty (newQuantity d)
      else ''Stock added successfully'')"

text \<open>
  \<open>handleSubmit\<close>; \<open>post\<close> is what \<open>POST /api/stocks\<close> answers, should the
  handler ask. The callbacks \<open>onSubmit\<close> and \<open>onClose\<close> belong to the parent
  component; they are recorded as effects and taken to return.
\<close>

definition handleSubmit :: "post_reply \<Rightarrow> state \<Rightarrow> state \<times> effect list" where
  "handleSubmit post st =
     (let (valid, st0) = validateForm st in
      if \<not> valid then (st0, [])
      else
        let st1 = st0\<lparr>loading := True\<rparr>;
            fd = formData st1;
            body = \<lparr>id_data = parseInt (stockId fd),
                    product_id_data = parseInt (productId fd),
                    quantity_data = parseInt (quantity fd)\<rparr>
        in case post of
             PostOk (Some d) \<Rightarrow>
               (st1\<lparr>error := successMessage d\<rparr>
                   \<lparr>formData := \<lparr>stockId = [], productId = [], quantity = []\<rparr>,
                    currentStock := None, error := [], loading := False\<rparr>,
                [POST_stocks body, OnSubmit d, OnClose])
           | PostOk None \<Rightarrow> (st1\<lparr>loading := False\<rparr>, [POST_stocks body])
           | PostFailed m \<Rightarrow>
               (st1\<lparr>error := (case m of
                                  None \<Rightarrow> ''Error processing your request''
                                | Some e \<Rightarrow> if e \<noteq> [] then e
                                            else ''Error processing your request''),
                    loading := False\<rparr>,
                [POST_stocks body]))"

subsection \<open>Opening the dialog\<close>

text \<open>Lines 18 to 26: the effect that runs when \<open>isOpen\<close> becomes true.\<close>

definition opened :: "state \<Rightarrow> state" where
  "opened st =
     st\<lparr>formData := \<lparr>stockId = [], productId = [], quantity = []\<rparr>,
        error := [], productError := [], currentStock := None, stockIdExists := False\<rparr>"

subsection \<open>What the form shows\<close>



text \<open>Lines 244 to 248: the general message is shown only without a current stock.\<close>

definition shownError :: "state \<Rightarrow> string option" where
  "shownError st = (if error st \<noteq> [] \<and> currentStock st = None then Some (error st) else None)"

text \<open>Lines 259 to 266: the submit button.\<close>

definition submitDisabled :: "state \<Rightarrow> bool" where
  "submitDisabled st = (loading st \<or> productError st \<noteq> [])"

definition submitLabel :: "state \<Rightarrow> string" where
  "submitLabel st =
     (if loading st then ''Processing...''
      else if currentStock st \<noteq> None then ''Add to Stock''
      else ''Create Stock'')"

subsection \<open>The life of a form\<close>

datatype event =
    InputChange string string
  | Preview "ProductRef option reply" "stock list reply"
  | Submit post_reply
  | Opened

fun step :: "state \<Rightarrow> event \<Rightarrow> state" where
  "step st (InputChange name v) = handleInputChange name v st"
| "step st (Preview pr sr) = fst (checkExistingStock pr sr st)"
| "step st (Submit post) = fst (handleSubmit post st)"
| "step st Opened = opened st"

definition run :: "event list \<Rightarrow> state" where
  "run evs = foldl step initial evs"

text \<open>A field is fit for the check when it is empty or parses to a number that is not negative.\<close>

definition fieldOk :: "string \<Rightarrow> bool" where
  "fieldOk v =
     (v = [] \<or> (case parseInt v of NaN \<Rightarrow> False | Num n \<Rightarrow> 0 \<le> n | Large neg \<Rightarrow> \<not> neg))"

definition fieldsOk :: "formData \<Rightarrow> bool" where
  "fieldsOk fd = (fieldOk (stockId fd) \<and> fieldOk (productId fd) \<and> fieldOk (quantity fd))"

subsection \<open>Scenarios\<close>

text \<open>A form in which the three fields have been typed, and nothing else has happened.\<close>

definition entered :: "string \<Rightarrow> string \<Rightarrow> string \<Rightarrow> state" where
  "entered a b c = initial\<lparr>formData := \<lparr>stockId = a, productId = b, quantity = c\<rparr>\<rparr>"

text \<open>The stock records and the product of the examples.\<close>

definition stock101 :: stock where
  "stock101 = \<lparr>id_stock = 101, product_id = 1, quantity_stock = 50\<rparr>"

definition stock102 :: stock where
  "stock102 = \<lparr>id_stock = 102, product_id = 2, quantity_stock = 7\<rparr>"

definition product1 :: ProductRef where
  "product1 = \<lparr>id_product = 1\<rparr>"



section \<open>Properties\<close>

subsection \<open>Parsing and printing\<close>

text \<open>The empty field is not a number.\<close>

lemma parseInt_Nil [simp]: "parseInt [] = NaN"
  by (simp add: parseInt_def stripSign_def stripPrefix_def)

lemma safe_limit: "(9007199254740992::int) = 2 ^ 53"
  by simp

lemma parseInt_safe: "parseInt v = Num n \<Longrightarrow> safeInteger n"
  by (auto simp: parseInt_def safeInteger_def Let_def split: prod.splits if_splits)

text \<open>The definitions that evaluate \<open>parseInt\<close> on a given string.\<close>

lemmas parseInt_unfold =
  parseInt_def stripSign_def stripPrefix_def isWhiteSpace_def isRadixDigit_def
  digitValue_def radixValue_def

text \<open>The characters that \<open>showNat\<close> writes are the ten decimal digits.\<close>

lemma of_char_digitChar: "d < 10 \<Longrightarrow> (of_char (digitChar d) :: nat) = 48 + d"
  by (simp add: digitChar_def)

lemma digitValue_digitChar: "d < 10 \<Longrightarrow> digitValue (digitChar d) = Some d"
  by (simp add: digitValue_def of_char_digitChar Let_def)

lemma isRadixDigit_digitChar: "d < 10 \<Longrightarrow> isRadixDigit 10 (digitChar d)"
  by (simp add: isRadixDigit_def digitValue_digitChar)

lemma not_white_digitChar: "d < 10 \<Longrightarrow> \<not> isWhiteSpace (digitChar d)"
  by (simp add: isWhiteSpace_def of_char_digitChar)

lemma showNat_digits: "c \<in> set (showNat n) \<Longrightarrow> \<exists>d<10. c = digitChar d"
proof (induction n rule: showNat.induct)
  case (1 n)
  show ?case
  proof (cases "n < 10")
    case True
    with "1.prems" show ?thesis by (auto simp: showNat.simps [of n])
  next
    case False
    with "1.prems" have "c \<in> set (showNat (n div 10)) \<or> c = digitChar (n mod 10)"
      by (auto simp: showNat.simps [of n])
    then show ?thesis
    proof
      assume "c \<in> set (showNat (n div 10))"
      with False "1.IH" show ?thesis by blast
    next
      assume "c = digitChar (n mod 10)"
      moreover have "n mod 10 < 10" by simp
      ultimately show ?thesis by blast
    qed
  qed
qed

lemma showNat_nonempty: "showNat n \<noteq> []"
  by (subst showNat.simps) simp

lemma radixValue_snoc:
  "d < 10 \<Longrightarrow> radixValue 10 (z @ [digitChar d]) = radixValue 10 z * 10 + d"
  by (simp add: radixValue_def digitValue_digitChar)

lemma radixValue_showNat: "radixValue 10 (showNat n) = n"
proof (induction n rule: showNat.induct)
  case (1 n)
  show ?case
  proof (cases "n < 10")
    case True
    then have "radixValue 10 ([] @ [digitChar n]) = radixValue 10 [] * 10 + n"
      by (rule radixValue_snoc)
    with True show ?thesis by (simp add: showNat.simps [of n] radixValue_def)
  next
    case False
    have "n mod 10 < 10" by simp
    then have "radixValue 10 (showNat (n div 10) @ [digitChar (n mod 10)]) =
               radixValue 10 (showNat (n div 10)) * 10 + n mod 10"
      by (rule radixValue_snoc)
    with False "1.IH" show ?thesis by (simp add: showNat.simps [of n])
  qed
qed

lemma showNat_hd: "\<exists>d<10. \<exists>r. showNat n = digitChar d # r"
proof -
  obtain c r where cr: "showNat n = c # r"
    using showNat_nonempty [of n] by (cases "showNat n") auto
  then have "c \<in> set (showNat n)" by simp
  then obtain d where "d < 10" "c = digitChar d" using showNat_digits by blast
  with cr show ?thesis by blast
qed

lemma digitChar_neq:
  assumes "d < 10"
  shows "digitChar d \<noteq> CHR ''-''" "digitChar d \<noteq> CHR ''+''"
    "digitChar d \<noteq> CHR ''x''" "digitChar d \<noteq> CHR ''X''"
proof -
  have v: "(of_char (digitChar d) :: nat) = 48 + d" using assms by (rule of_char_digitChar)
  show "digitChar d \<noteq> CHR ''-''"
  proof
    assume "digitChar d = CHR ''-''"
    then have "(of_char (digitChar d) :: nat) = 45" by simp
    with v show False by simp
  qed
  show "digitChar d \<noteq> CHR ''+''"
  proof
    assume "digitChar d = CHR ''+''"
    then have "(of_char (digitChar d) :: nat) = 43" by simp
    with v show False by simp
  qed
  show "digitChar d \<noteq> CHR ''x''"
  proof
    assume "digitChar d = CHR ''x''"
    then have "(of_char (digitChar d) :: nat) = 120" by simp
    with v assms show False by simp
  qed
  show "digitChar d \<noteq> CHR ''X''"
  proof
    assume "digitChar d = CHR ''X''"
    then have "(of_char (digitChar d) :: nat) = 88" by simp
    with v assms show False by simp
  qed
qed

text \<open>A string of decimal digits is read as a whole, in radix 10.\<close>

lemma digits_hd:
  assumes "s \<noteq> []" and "\<forall>c\<in>set s. \<exists>d<10. c = digitChar d"
  shows "\<exists>d<10. \<exists>r. s = digitChar d # r"
proof -
  obtain c r where cr: "s = c # r"
    using assms(1) by (cases s) auto
  then have "c \<in> set s" by simp
  then obtain d where "d < 10" "c = digitChar d" using assms(2) by blast
  with cr show ?thesis by blast
qed

lemma stripPrefix_digits:
  assumes "\<forall>c\<in>set s. \<exists>d<10. c = digitChar d"
  shows "stripPrefix s = (10, s)"
proof (cases s)
  case Nil
  then show ?thesis by (simp add: stripPrefix_def)
next
  case (Cons a r)
  show ?thesis
  proof (cases r)
    case Nil
    with Cons show ?thesis by (simp add: stripPrefix_def)
  next
    case (Cons b r')
    with \<open>s = a # r\<close> have "b \<in> set s" by simp
    then obtain d where "d < 10" "b = digitChar d" using assms by blast
    then have "b \<noteq> CHR ''x''" "b \<noteq> CHR ''X''" using digitChar_neq by simp_all
    with Cons \<open>s = a # r\<close> show ?thesis by (simp add: stripPrefix_def)
  qed
qed

lemma takeWhile_digits:
  assumes "\<forall>c\<in>set s. \<exists>d<10. c = digitChar d"
  shows "takeWhile (isRadixDigit 10) s = s"
proof -
  have "\<forall>c\<in>set s. isRadixDigit 10 c"
  proof
    fix c assume "c \<in> set s"
    with assms obtain d where d: "d < 10" and c: "c = digitChar d" by blast
    from d have "isRadixDigit 10 (digitChar d)" by (rule isRadixDigit_digitChar)
    with c show "isRadixDigit 10 c" by (simp only:)
  qed
  then show ?thesis by (simp only: takeWhile_eq_all_conv)
qed

lemma parseInt_digits:
  assumes "s \<noteq> []" and "\<forall>c\<in>set s. \<exists>d<10. c = digitChar d"
  shows "parseInt s =
           (if int (radixValue 10 s) < 9007199254740992 then Num (int (radixValue 10 s)) else Large False)"
proof -
  obtain d r where d: "d < 10" and s: "s = digitChar d # r"
    using digits_hd [OF assms] by blast
  have "dropWhile isWhiteSpace s = s"
    using d s by (simp add: not_white_digitChar)
  moreover have "stripSign s = (False, s)"
    using d s digitChar_neq(1,2) [OF d] by (simp add: stripSign_def)
  ultimately show ?thesis
    using assms(1)
    by (simp add: parseInt_def stripPrefix_digits [OF assms(2)] takeWhile_digits [OF assms(2)])
qed

text \<open>
  The decimal text of a natural number below \<open>2^53\<close>, with or without zeros in front
  of it, parses back to that number: what the form prints into a message and what it
  reads from a field agree.
\<close>

lemma digitChar_zero: "digitChar 0 = CHR ''0''"
  by code_simp

lemma radixValue_zeros: "radixValue 10 (replicate k (CHR ''0'') @ s) = radixValue 10 s"
proof -
  have "foldl (\<lambda>a c. a * 10 + (case digitValue c of None \<Rightarrow> 0 | Some d \<Rightarrow> d)) 0
          (replicate k (CHR ''0'')) = 0"
    by (induction k) (simp_all add: digitValue_def)
  then show ?thesis by (simp add: radixValue_def)
qed

lemma parseInt_literal:
  assumes "n < 9007199254740992"
  shows "parseInt (replicate k (CHR ''0'') @ showNat n) = Num (int n)"
proof -
  let ?s = "replicate k (CHR ''0'') @ showNat n"
  have ne: "?s \<noteq> []" using showNat_nonempty [of n] by simp
  have ds: "\<forall>c\<in>set ?s. \<exists>d<10. c = digitChar d"
  proof
    fix c assume "c \<in> set ?s"
    then have "c = CHR ''0'' \<or> c \<in> set (showNat n)" by auto
    then show "\<exists>d<10. c = digitChar d"
    proof
      assume "c = CHR ''0''"
      then have "c = digitChar 0" by (simp add: digitChar_zero)
      then show ?thesis by (intro exI [of _ 0]) simp
    next
      assume "c \<in> set (showNat n)"
      then show ?thesis by (rule showNat_digits)
    qed
  qed
  have "radixValue 10 ?s = n"
    by (simp add: radixValue_zeros radixValue_showNat)
  with parseInt_digits [OF ne ds] assms show ?thesis by simp
qed

lemma parseInt_showNat:
  assumes "n < 9007199254740992"
  shows "parseInt (showNat n) = Num (int n)"
proof -
  have "replicate 0 (CHR ''0'') @ showNat n = showNat n" by simp
  with parseInt_literal [OF assms, of 0] show ?thesis by (simp only:)
qed

subsection \<open>Looking a record up in the listing\<close>


lemma existingStock_nonempty: "existingStock fd stocks = Some e \<Longrightarrow> stockId fd \<noteq> []"
  by (auto simp: existingStock_def split: if_splits)



lemma productStock_product:
  "productStock fd stocks = Some ps \<Longrightarrow> parseInt (productId fd) = Num (product_id ps)"
  by (auto simp: productStock_def find_Some_iff split: if_splits)





lemma existingStock_none:
  "\<forall>s\<in>set stocks. Num (id_stock s) \<noteq> parseInt (stockId fd) \<Longrightarrow> existingStock fd stocks = None"
  by (simp add: existingStock_def find_None_iff)

lemma productStock_none:
  "\<forall>s\<in>set stocks. Num (product_id s) \<noteq> parseInt (productId fd) \<Longrightarrow> productStock fd stocks = None"
  by (simp add: productStock_def find_None_iff)

subsection \<open>The check leaves the fields alone\<close>

lemma checkBound_formData: "formData (checkBound fd es ps st) = formData st"
  by (simp add: checkBound_def Let_def split: option.split)

lemma checkStocks_formData: "formData (checkStocks fd stocks st) = formData st"
  by (simp add: checkStocks_def checkBound_formData Let_def split: option.split)

lemma checkExistingStock_formData: "formData (fst (checkExistingStock pr sr st)) = formData st"
  by (cases pr; cases sr)
     (simp_all add: checkExistingStock_def checkStocks_formData Let_def split: option.split)

lemma fieldsOk_empty: "fieldsOk \<lparr>stockId = [], productId = [], quantity = []\<rparr>"
  by (simp add: fieldsOk_def fieldOk_def)

lemma handleSubmit_fieldsOk:
  "fieldsOk (formData st) \<Longrightarrow> fieldsOk (formData (fst (handleSubmit post st)))"
  by (simp add: handleSubmit_def validateForm_def Let_def fieldsOk_empty
           split: post_reply.split option.split)

lemma handleInputChange_fieldsOk:
  "fieldsOk (formData st) \<Longrightarrow> fieldsOk (formData (handleInputChange name v st))"
  by (auto simp: handleInputChange_def setField_def fieldsOk_def fieldOk_def
           split: number.splits)

lemma step_fieldsOk: "fieldsOk (formData st) \<Longrightarrow> fieldsOk (formData (step st ev))"
  by (cases ev)
     (simp_all add: handleInputChange_fieldsOk checkExistingStock_formData
        handleSubmit_fieldsOk opened_def fieldsOk_empty)

lemma foldl_step_fieldsOk:
  "fieldsOk (formData st) \<Longrightarrow> fieldsOk (formData (foldl step st evs))"
  by (induction evs arbitrary: st) (simp_all add: step_fieldsOk)

subsection \<open>What the guard of an input change ensures\<close>

text \<open>
  A change to a non-empty value whose \<open>parseInt\<close> is \<open>NaN\<close> or negative is dropped.
\<close>

lemma handleInputChange_dropped:
  assumes "name = ''stockId'' \<or> name = ''productId'' \<or> name = ''quantity''"
    and "v \<noteq> []"
    and "parseInt v = NaN \<or> (\<exists>n<0. parseInt v = Num n) \<or> parseInt v = Large True"
  shows "handleInputChange name v st = st"
  using assms by (auto simp: handleInputChange_def)

text \<open>
  So, whatever happens to a form, each of its fields is empty or has a \<open>parseInt\<close>
  that is a number and not negative.
\<close>

lemma run_fieldsOk: "fieldsOk (formData (run evs))"
proof -
  have "fieldsOk (formData initial)"
    by (simp add: initial_def fieldsOk_empty)
  then show ?thesis
    unfolding run_def by (rule foldl_step_fieldsOk)
qed

subsection \<open>A second check changes nothing\<close>

lemma checkBound_twice: "checkBound fd es ps (checkBound fd es ps st) = checkBound fd es ps st"
  by (simp add: checkBound_def Let_def split: option.split)

lemma checkStocks_twice:
  "checkStocks fd stocks (checkStocks fd stocks st) = checkStocks fd stocks st"
  by (cases "existingStock fd stocks")
     (simp_all add: checkStocks_def checkBound_def Let_def split: option.split)

lemma checkExistingStock_twice:
  "checkExistingStock pr sr (fst (checkExistingStock pr sr st)) = checkExistingStock pr sr st"
  by (cases pr; cases sr)
     (simp_all add: checkExistingStock_def Let_def checkStocks_formData checkStocks_twice
        split: option.split)

subsection \<open>What a product error and a current stock mean for the form\<close>

text \<open>
  A product error disables the submit button, and a submission made all the same
  issues no request.
\<close>

lemma productError_blocks_submit:
  assumes "productError st \<noteq> []"
  shows "submitDisabled st" and "snd (handleSubmit post st) = []"
  using assms by (simp_all add: submitDisabled_def handleSubmit_def validateForm_def Let_def)

text \<open>
  The current stock decides what the button offers, and hides the general message.
\<close>

lemma submitLabel_currentStock:
  assumes "\<not> loading st"
  shows "submitLabel st = (if currentStock st = None then ''Create Stock'' else ''Add to Stock'')"
  using assms by (simp add: submitLabel_def)

lemma shownError_currentStock: "currentStock st \<noteq> None \<Longrightarrow> shownError st = None"
  by (simp add: shownError_def)

section \<open>The claims\<close>

text \<open>
  In the words of the specification, the check \<^emph>\<open>rejects\<close> when it leaves a product
  error (which disables the submit button) and no current stock; it previews an
  \<^emph>\<open>update\<close> when it sets the current stock; it previews a \<^emph>\<open>creation\<close> when it
  leaves neither a current stock nor a message.
\<close>

subsection \<open>C1: an existing stock of the same product is topped up\<close>




subsection \<open>C2: a new stock is created with the supplied triple\<close>

text \<open>
  Claim C2, as amended. Let the three fields be filled in, the product query find the
  product, and the listing be one of safe integers with no record whose identifier is
  the supplied stock id and none whose product is the supplied product id. Then the
  check leaves neither a current stock nor a message, the fields stay as typed, and a
  submission that follows posts exactly one body, made of the three parsed fields. For
  fields that are the decimal texts of natural numbers \<open>i\<close>, \<open>j\<close> and \<open>q\<close> below
  \<open>2^53\<close>, with or without zeros in front, the body is \<open>(i, j, q)\<close>.
\<close>

theorem new_stock_create:
  assumes "stockId (formData st) \<noteq> []"
    and "productId (formData st) \<noteq> []"
    and "quantity (formData st) \<noteq> []"
    and "\<forall>s\<in>set stocks. safeStock s"
    and "\<forall>s\<in>set stocks. Num (id_stock s) \<noteq> parseInt (stockId (formData st))"
    and "\<forall>s\<in>set stocks. Num (product_id s) \<noteq> parseInt (productId (formData st))"
  shows "checkExistingStock (Ok (Some p)) (Ok stocks) st =
           (st\<lparr>stockIdExists := False, currentStock := None, error := [], productError := []\<rparr>,
            [GET_products (productId (formData st)), GET_stocks 1 100]) \<and>
         snd (handleSubmit post (fst (checkExistingStock (Ok (Some p)) (Ok stocks) st))) =
           POST_stocks \<lparr>id_data = parseInt (stockId (formData st)),
                        product_id_data = parseInt (productId (formData st)),
                        quantity_data = parseInt (quantity (formData st))\<rparr>
           # (case post of PostOk (Some d) \<Rightarrow> [OnSubmit d, OnClose] | _ \<Rightarrow> []) \<and>
         (formData st = \<lparr>stockId = replicate a (CHR ''0'') @ showNat i,
                          productId = replicate b (CHR ''0'') @ showNat j,
                          quantity = replicate c (CHR ''0'') @ showNat q\<rparr> \<and>
          i < 9007199254740992 \<and> j < 9007199254740992 \<and> q < 9007199254740992 \<longrightarrow>
            hd (snd (handleSubmit post (fst (checkExistingStock (Ok (Some p)) (Ok stocks) st)))) =
              POST_stocks \<lparr>id_data = Num (int i), product_id_data = Num (int j),
                           quantity_data = Num (int q)\<rparr>)"
proof -
  let ?fd = "formData st"
  have es: "existingStock ?fd stocks = None" using assms(5) by (rule existingStock_none)
  have ps: "productStock ?fd stocks = None" using assms(6) by (rule productStock_none)
  have run: "checkExistingStock (Ok (Some p)) (Ok stocks) st =
           (st\<lparr>stockIdExists := False, currentStock := None, error := [], productError := []\<rparr>,
            [GET_products (productId ?fd), GET_stocks 1 100])"
    using es ps assms(2)
    by (simp add: checkExistingStock_def checkStocks_def checkBound_def Let_def)
  have post: "snd (handleSubmit post (fst (checkExistingStock (Ok (Some p)) (Ok stocks) st))) =
           POST_stocks \<lparr>id_data = parseInt (stockId ?fd),
                        product_id_data = parseInt (productId ?fd),
                        quantity_data = parseInt (quantity ?fd)\<rparr>
           # (case post of PostOk (Some d) \<Rightarrow> [OnSubmit d, OnClose] | _ \<Rightarrow> [])"
    using assms(1,2,3)
    by (simp add: run handleSubmit_def validateForm_def Let_def
             split: post_reply.split option.split)
  have "hd (snd (handleSubmit post (fst (checkExistingStock (Ok (Some p)) (Ok stocks) st)))) =
              POST_stocks \<lparr>id_data = Num (int i), product_id_data = Num (int j),
                           quantity_data = Num (int q)\<rparr>"
    if fd: "?fd = \<lparr>stockId = replicate a (CHR ''0'') @ showNat i,
                    productId = replicate b (CHR ''0'') @ showNat j,
                    quantity = replicate c (CHR ''0'') @ showNat q\<rparr>"
      and i: "i < 9007199254740992" and j: "j < 9007199254740992" and q: "q < 9007199254740992"
  proof -
    have "parseInt (stockId ?fd) = Num (int i)" "parseInt (productId ?fd) = Num (int j)"
      "parseInt (quantity ?fd) = Num (int q)"
      by (simp_all add: fd parseInt_literal i j q)
    with post show ?thesis by simp
  qed
  with run post show ?thesis by blast
qed

theorem new_stock_create_witness:
  "stockId (formData (entered ''200'' ''1'' ''010'')) \<noteq> [] \<and>
   productId (formData (entered ''200'' ''1'' ''010'')) \<noteq> [] \<and>
   quantity (formData (entered ''200'' ''1'' ''010'')) \<noteq> [] \<and>
   safeStock stock102 \<and>
   Num (id_stock stock102) \<noteq> parseInt (stockId (formData (entered ''200'' ''1'' ''010''))) \<and>
   Num (product_id stock102) \<noteq> parseInt (productId (formData (entered ''200'' ''1'' ''010''))) \<and>
   checkExistingStock (Ok (Some product1)) (Ok [stock102]) (entered ''200'' ''1'' ''010'') =
     ((entered ''200'' ''1'' ''010'')
        \<lparr>stockIdExists := False, currentStock := None, error := [], productError := []\<rparr>,
      [GET_products ''1'', GET_stocks 1 100]) \<and>
   snd (handleSubmit (PostOk None)
          (fst (checkExistingStock (Ok (Some product1)) (Ok [stock102]) (entered ''200'' ''1'' ''010'')))) =
     [POST_stocks \<lparr>id_data = Num 200, product_id_data = Num 1, quantity_data = Num 10\<rparr>] \<and>
   formData (entered ''200'' ''1'' ''010'') =
     \<lparr>stockId = replicate 0 (CHR ''0'') @ showNat 200,
      productId = replicate 0 (CHR ''0'') @ showNat 1,
      quantity = replicate 1 (CHR ''0'') @ showNat 10\<rparr> \<and>
   hd (snd (handleSubmit (PostOk None)
          (fst (checkExistingStock (Ok (Some product1)) (Ok [stock102]) (entered ''200'' ''1'' ''010''))))) =
     POST_stocks \<lparr>id_data = Num 200, product_id_data = Num 1, quantity_data = Num 10\<rparr>"
proof -
  have f: "formData (entered ''200'' ''1'' ''010'') =
             \<lparr>stockId = ''200'', productId = ''1'', quantity = ''010''\<rparr>"
    by (simp add: entered_def)
  have p1: "parseInt ''200'' = Num 200" by code_simp
  have p2: "parseInt ''1'' = Num 1" by code_simp
  have p3: "parseInt ''010'' = Num 10" by code_simp
  have h1: "stockId (formData (entered ''200'' ''1'' ''010'')) \<noteq> []" by (simp add: f)
  have h2: "productId (formData (entered ''200'' ''1'' ''010'')) \<noteq> []" by (simp add: f)
  have h3: "quantity (formData (entered ''200'' ''1'' ''010'')) \<noteq> []" by (simp add: f)
  have s: "safeStock stock102" by (simp add: safeStock_def safeInteger_def stock102_def)
  then have h4: "\<forall>s\<in>set [stock102]. safeStock s" by simp
  have h5': "Num (id_stock stock102) \<noteq> parseInt (stockId (formData (entered ''200'' ''1'' ''010'')))"
    by (simp add: f p1 stock102_def)
  then have h5: "\<forall>s\<in>set [stock102].
              Num (id_stock s) \<noteq> parseInt (stockId (formData (entered ''200'' ''1'' ''010'')))"
    by simp
  have h6': "Num (product_id stock102) \<noteq> parseInt (productId (formData (entered ''200'' ''1'' ''010'')))"
    by (simp add: f p2 stock102_def)
  then have h6: "\<forall>s\<in>set [stock102].
              Num (product_id s) \<noteq> parseInt (productId (formData (entered ''200'' ''1'' ''010'')))"
    by simp
  have h7: "formData (entered ''200'' ''1'' ''010'') =
              \<lparr>stockId = replicate 0 (CHR ''0'') @ showNat 200,
               productId = replicate 0 (CHR ''0'') @ showNat 1,
               quantity = replicate 1 (CHR ''0'') @ showNat 10\<rparr>"
    by code_simp
  have b: "(200::nat) < 9007199254740992" "(1::nat) < 9007199254740992"
    "(10::nat) < 9007199254740992"
    by simp_all
  note t = new_stock_create [OF h1 h2 h3 h4 h5 h6, where p = product1 and post = "PostOk None"
      and a = 0 and b = 0 and c = 1 and i = 200 and j = 1 and q = 10]
  note t1 = t [THEN conjunct1]
  note t2 = t [THEN conjunct2, THEN conjunct1]
  note t3 = t [THEN conjunct2, THEN conjunct2]
  from t1 have c: "checkExistingStock (Ok (Some product1)) (Ok [stock102]) (entered ''200'' ''1'' ''010'') =
     ((entered ''200'' ''1'' ''010'')
        \<lparr>stockIdExists := False, currentStock := None, error := [], productError := []\<rparr>,
      [GET_products ''1'', GET_stocks 1 100])"
    by (simp add: f)
  from t2 have w: "snd (handleSubmit (PostOk None)
          (fst (checkExistingStock (Ok (Some product1)) (Ok [stock102]) (entered ''200'' ''1'' ''010'')))) =
     [POST_stocks \<lparr>id_data = Num 200, product_id_data = Num 1, quantity_data = Num 10\<rparr>]"
    by (simp add: f p1 p2 p3)
  from t3 h7 b have "hd (snd (handleSubmit (PostOk None)
          (fst (checkExistingStock (Ok (Some product1)) (Ok [stock102]) (entered ''200'' ''1'' ''010''))))) =
     POST_stocks \<lparr>id_data = Num (int 200), product_id_data = Num (int 1),
                  quantity_data = Num (int 10)\<rparr>"
    by blast
  then have d: "hd (snd (handleSubmit (PostOk None)
          (fst (checkExistingStock (Ok (Some product1)) (Ok [stock102]) (entered ''200'' ''1'' ''010''))))) =
     POST_stocks \<lparr>id_data = Num 200, product_id_data = Num 1, quantity_data = Num 10\<rparr>"
    by simp
  show ?thesis by (intro conjI h1 h2 h3 s h5' h6' c w h7 d)
qed

text \<open>
  The claim as stated fails for fields that are not such texts. The quantity \<open>1e3\<close>
  passes the guard of the input change and is posted as 1. The stock id
  \<open>9007199254740993\<close> is posted as a number of magnitude \<open>2^53\<close> or more that is
  not the integer typed (the double next to it).
\<close>

theorem new_stock_create_counterexample:
  "handleInputChange ''quantity'' ''1e3'' (entered ''200'' ''1'' []) = entered ''200'' ''1'' ''1e3'' \<and>
   snd (handleSubmit (PostOk None)
          (fst (checkExistingStock (Ok (Some product1)) (Ok [stock102]) (entered ''200'' ''1'' ''1e3'')))) =
     [POST_stocks \<lparr>id_data = Num 200, product_id_data = Num 1, quantity_data = Num 1\<rparr>] \<and>
   snd (handleSubmit (PostOk None)
          (fst (checkExistingStock (Ok (Some product1)) (Ok [stock102])
                 (entered ''9007199254740993'' ''1'' ''10'')))) =
     [POST_stocks \<lparr>id_data = Large False, product_id_data = Num 1, quantity_data = Num 10\<rparr>]"
proof -
  have a: "handleInputChange ''quantity'' ''1e3'' (entered ''200'' ''1'' []) =
             entered ''200'' ''1'' ''1e3''"
    by code_simp
  have b: "snd (handleSubmit (PostOk None)
          (fst (checkExistingStock (Ok (Some product1)) (Ok [stock102]) (entered ''200'' ''1'' ''1e3'')))) =
     [POST_stocks \<lparr>id_data = Num 200, product_id_data = Num 1, quantity_data = Num 1\<rparr>]"
    by code_simp
  have l: "parseInt ''9007199254740993'' = Large False"
    by (simp add: parseInt_unfold)
  have p1: "parseInt ''1'' = Num 1" by code_simp
  have p10: "parseInt ''10'' = Num 10" by code_simp
  have c: "snd (handleSubmit (PostOk None)
          (fst (checkExistingStock (Ok (Some product1)) (Ok [stock102])
                 (entered ''9007199254740993'' ''1'' ''10'')))) =
     [POST_stocks \<lparr>id_data = Large False, product_id_data = Num 1, quantity_data = Num 10\<rparr>]"
    by (simp add: checkExistingStock_def checkStocks_def checkBound_def existingStock_def
          productStock_def entered_def initial_def stock102_def handleSubmit_def
          validateForm_def Let_def l p1 p10)
  show ?thesis by (intro conjI a b c)
qed

subsection \<open>C3: a product that already has a stock\<close>




subsection \<open>C4: a stock that belongs to another product\<close>




subsection \<open>C5: an unknown product\<close>

text \<open>
  Claim C5. When a product id is supplied and the product query answers that there is
  no such product, the check sets the product error \<open>Product ID does not exist\<close> and
  clears the current stock, whatever the stock id and the quantity are; the product
  query is the only request it makes, and the result does not depend on what the stock
  listing would have answered.
\<close>

theorem absent_product_rejected:
  assumes "productId (formData st) \<noteq> []"
  shows "checkExistingStock (Ok None) sr st =
           (st\<lparr>productError := ''Product ID does not exist'', currentStock := None\<rparr>,
            [GET_products (productId (formData st))])"
  using assms by (simp add: checkExistingStock_def Let_def)

theorem absent_product_rejected_witness:
  "productId (formData (entered ''101'' ''999'' ''20'')) \<noteq> [] \<and>
   checkExistingStock (Ok None) (Ok [stock101]) (entered ''101'' ''999'' ''20'') =
     ((entered ''101'' ''999'' ''20'')\<lparr>productError := ''Product ID does not exist'',
                                         currentStock := None\<rparr>,
      [GET_products ''999''])"
proof -
  have h: "productId (formData (entered ''101'' ''999'' ''20'')) \<noteq> []"
    by (simp add: entered_def)
  show ?thesis
    using h absent_product_rejected [OF h, of "Ok [stock101]"]
    by (simp add: entered_def)
qed

subsection \<open>C6: a submission with an empty field\<close>

text \<open>
  Claim C6. A submission with the stock id, the product id or the quantity empty sets
  the message \<open>All fields are required\<close>, changes nothing else of the state, and
  issues no request at all, whatever the server would have answered.
\<close>

theorem submit_requires_all_fields:
  assumes "stockId (formData st) = [] \<or> productId (formData st) = [] \<or> quantity (formData st) = []"
  shows "handleSubmit post st = (st\<lparr>error := ''All fields are required''\<rparr>, [])"
  using assms by (simp add: handleSubmit_def validateForm_def Let_def)

theorem submit_requires_all_fields_witness:
  "quantity (formData (entered ''101'' ''1'' [])) = [] \<and>
   handleSubmit (PostOk None) (entered ''101'' ''1'' []) =
     ((entered ''101'' ''1'' [])\<lparr>error := ''All fields are required''\<rparr>, [])"
proof -
  have h: "quantity (formData (entered ''101'' ''1'' [])) = []"
    by (simp add: entered_def)
  then have "stockId (formData (entered ''101'' ''1'' [])) = [] \<or>
             productId (formData (entered ''101'' ''1'' [])) = [] \<or>
             quantity (formData (entered ''101'' ''1'' [])) = []" by simp
  from submit_requires_all_fields [OF this, of "PostOk None"] h show ?thesis by simp
qed

subsection \<open>C7: requests that fail\<close>

text \<open>
  Claim C7. With a product id supplied, a product query that fails gives the very
  result of a product query that finds nothing: the product error
  \<open>Product ID does not exist\<close>, no current stock, and no stock listing asked for.
  A stock listing that fails, once the check has come to ask for it (no product id
  supplied, or the product found), sets the message
  \<open>Error checking stock information\<close> and changes nothing else.
\<close>

theorem transport_failures:
  "(productId (formData st) \<noteq> [] \<longrightarrow>
      checkExistingStock Failed sr st = checkExistingStock (Ok None) sr st \<and>
      checkExistingStock Failed sr st =
        (st\<lparr>productError := ''Product ID does not exist'', currentStock := None\<rparr>,
         [GET_products (productId (formData st))])) \<and>
   (productId (formData st) = [] \<and> stockId (formData st) \<noteq> [] \<longrightarrow>
      checkExistingStock pr Failed st =
        (st\<lparr>error := ''Error checking stock information''\<rparr>, [GET_stocks 1 100])) \<and>
   (productId (formData st) \<noteq> [] \<longrightarrow>
      checkExistingStock (Ok (Some p)) Failed st =
        (st\<lparr>error := ''Error checking stock information''\<rparr>,
         [GET_products (productId (formData st)), GET_stocks 1 100]))"
  by (simp add: checkExistingStock_def Let_def)

theorem transport_failures_witness:
  "productId (formData (entered ''101'' ''1'' ''20'')) \<noteq> [] \<and>
   checkExistingStock Failed (Ok [stock101]) (entered ''101'' ''1'' ''20'') =
     checkExistingStock (Ok None) (Ok [stock101]) (entered ''101'' ''1'' ''20'') \<and>
   checkExistingStock Failed (Ok [stock101]) (entered ''101'' ''1'' ''20'') =
     ((entered ''101'' ''1'' ''20'')\<lparr>productError := ''Product ID does not exist'',
                                       currentStock := None\<rparr>,
      [GET_products ''1'']) \<and>
   checkExistingStock (Ok (Some product1)) Failed (entered ''101'' ''1'' ''20'') =
     ((entered ''101'' ''1'' ''20'')\<lparr>error := ''Error checking stock information''\<rparr>,
      [GET_products ''1'', GET_stocks 1 100]) \<and>
   productId (formData (entered ''101'' [] [])) = [] \<and>
   stockId (formData (entered ''101'' [] [])) \<noteq> [] \<and>
   checkExistingStock Failed Failed (entered ''101'' [] []) =
     ((entered ''101'' [] [])\<lparr>error := ''Error checking stock information''\<rparr>,
      [GET_stocks 1 100])"
proof -
  have h1: "productId (formData (entered ''101'' ''1'' ''20'')) \<noteq> []"
    by (simp add: entered_def)
  have e: "productId (formData (entered ''101'' ''1'' ''20'')) = ''1''"
    by (simp add: entered_def)
  have h2: "productId (formData (entered ''101'' [] [])) = [] \<and>
            stockId (formData (entered ''101'' [] [])) \<noteq> []"
    by (simp add: entered_def)
  show ?thesis
    using h1 h2
      transport_failures [of "entered ''101'' ''1'' ''20''" "Ok [stock101]" Failed product1]
      transport_failures [of "entered ''101'' [] []" "Ok [stock101]" Failed product1]
    by (auto simp: e)
qed

subsection \<open>C8: what an input change lets through\<close>

text \<open>
  Claim C8. The handler is to drop every change of the stock id, the product id or the
  quantity to a value that is not a number or is negative. Its guard tests
  \<open>parseInt\<close> of the value, which reads the integer before the decimal point: the
  negative value \<open>-0.5\<close> reads as zero, passes the guard and is stored, and the check
  that follows asks the server for product \<open>-0.5\<close>. Here the code does not do what
  the claim, and the comment above the guard, say.
\<close>

theorem input_change_negative_fraction:
  "parseInt ''-0.5'' = Num 0 \<and>
   handleInputChange ''productId'' ''-0.5'' (entered ''101'' [] []) = entered ''101'' ''-0.5'' [] \<and>
   entered ''101'' ''-0.5'' [] \<noteq> entered ''101'' [] [] \<and>
   snd (checkExistingStock (Ok None) (Ok [stock101]) (entered ''101'' ''-0.5'' [])) =
     [GET_products ''-0.5'']"
  by code_simp

subsection \<open>C10: a known stock and no product\<close>

text \<open>
  Claim C10. When the product id is empty and the listing holds a record for the
  supplied stock id, the check asks for the listing only, notes that the stock id
  exists, clears the current stock and empties both messages: it neither rejects nor
  previews an update.
\<close>

theorem stock_without_product_unclassified:
  assumes "productId (formData st) = []"
    and "existingStock (formData st) stocks = Some e"
  shows "checkExistingStock pr (Ok stocks) st =
           (st\<lparr>stockIdExists := True, currentStock := None, error := [], productError := []\<rparr>,
            [GET_stocks 1 100])"
  using assms existingStock_nonempty[OF assms(2)]
  by (simp add: checkExistingStock_def checkStocks_def checkBound_def productStock_def Let_def)

theorem stock_without_product_unclassified_witness:
  "productId (formData (entered ''101'' [] [])) = [] \<and>
   existingStock (formData (entered ''101'' [] [])) [stock101] = Some stock101 \<and>
   checkExistingStock Failed (Ok [stock101]) (entered ''101'' [] []) =
     ((entered ''101'' [] [])
        \<lparr>stockIdExists := True, currentStock := None, error := [], productError := []\<rparr>,
      [GET_stocks 1 100])"
proof -
  have h1: "productId (formData (entered ''101'' [] [])) = []"
    by (simp add: entered_def)
  have h2: "existingStock (formData (entered ''101'' [] [])) [stock101] = Some stock101"
    by code_simp
  show ?thesis
    using h1 h2 stock_without_product_unclassified [OF h1 h2, of Failed]
    by simp
qed

end
